theory Spec2Isabelle
  imports Complex_Main "HOL-Library.Sublist" "HOL-Library.AList" "HOL-Library.Multiset"
begin

section \<open>Python strings and the runtime's character tables\<close>

text \<open>
  A Python \<open>str\<close> is a sequence of Unicode code points, so it is modelled as a list of
  natural numbers: \<open>len\<close> is \<open>length\<close>, \<open>s.startswith(t)\<close> is \<open>prefix t s\<close>,
  \<open>t in s\<close> is \<open>sublist t s\<close> (a contiguous occurrence) and \<open>s[n:]\<close> is \<open>drop n s\<close>.
  ASCII literals are written \<open>cps ''...''\<close>; the Chinese literals of the program are
  written as their code points and described in the text beside them.
\<close>

type_synonym pystr = "nat list"

definition cps :: "string \<Rightarrow> pystr" where
  "cps s = map of_char s"

text \<open>
  \<open>str.isspace\<close> of one code point, which is also what \<open>str.strip()\<close> removes and what
  \<open>\s\<close> matches in a \<open>str\<close> pattern: the code points of bidirectional type WS, B or S and
  of category Zs.
\<close>

definition py_isspace :: "nat \<Rightarrow> bool" where
  "py_isspace c =
     ((9 \<le> c \<and> c \<le> 13) \<or> (28 \<le> c \<and> c \<le> 32) \<or> c = 133 \<or> c = 160 \<or> c = 5760
      \<or> (8192 \<le> c \<and> c \<le> 8202) \<or> c = 8232 \<or> c = 8233 \<or> c = 8239 \<or> c = 8287
      \<or> c = 12288)"

definition py_strip :: "pystr \<Rightarrow> pystr" where
  "py_strip s = rev (dropWhile py_isspace (rev (dropWhile py_isspace s)))"

text \<open>\<open>sep.join(xs)\<close>.\<close>

fun py_join :: "pystr \<Rightarrow> pystr list \<Rightarrow> pystr" where
  "py_join sep [] = []"
| "py_join sep [x] = x"
| "py_join sep (x # y # ys) = x @ sep @ py_join sep (y # ys)"

text \<open>
  A Python \<open>float\<close> is an IEEE double: a finite double is the rational number it denotes
  (the two zeros compare equal and are one value here), and the comparisons \<open><\<close> and
  \<open>==\<close> on doubles are exact, with every comparison against NaN false.
\<close>

datatype pyfloat = Finite rat | PosInf | NegInf | NaN

fun float_lt :: "pyfloat \<Rightarrow> pyfloat \<Rightarrow> bool" where
  "float_lt (Finite a) (Finite b) = (a < b)"
| "float_lt (Finite a) PosInf = True"
| "float_lt NegInf (Finite b) = True"
| "float_lt NegInf PosInf = True"
| "float_lt _ _ = False"

fun float_eq :: "pyfloat \<Rightarrow> pyfloat \<Rightarrow> bool" where
  "float_eq (Finite a) (Finite b) = (a = b)"
| "float_eq PosInf PosInf = True"
| "float_eq NegInf NegInf = True"
| "float_eq _ _ = False"

text \<open>
  What the program takes from the interpreter and its Unicode database rather than from
  its own code: which code points \<open>\d\<close> matches (category Nd), the upper-case mapping of
  one code point (\<open>str.upper\<close> maps code point by code point, some to several), and
  \<open>float(s)\<close> on a string, \<open>None\<close> where it raises \<open>ValueError\<close>. On ASCII the two
  character tables are fixed below; from U+0080 on, and for \<open>float\<close>, they are parameters
  of the model, and the general theorems hold for every such runtime.
\<close>

record runtime =
  rt_isdecimal :: "nat \<Rightarrow> bool"
  rt_upper :: "nat \<Rightarrow> pystr"
  rt_float :: "pystr \<Rightarrow> pyfloat option"

definition py_isdecimal :: "runtime \<Rightarrow> nat \<Rightarrow> bool" where
  "py_isdecimal rt c = (if c < 128 then 48 \<le> c \<and> c \<le> 57 else rt_isdecimal rt c)"

definition upper_cp :: "runtime \<Rightarrow> nat \<Rightarrow> pystr" where
  "upper_cp rt c =
     (if c < 128 then (if 97 \<le> c \<and> c \<le> 122 then [c - 32] else [c]) else rt_upper rt c)"

definition py_upper :: "runtime \<Rightarrow> pystr \<Rightarrow> pystr" where
  "py_upper rt s = concat (map (upper_cp rt) s)"

subsection \<open>A runtime for evaluation\<close>

text \<open>
  CPython's tables on Latin-1. Code points from U+0100 on are taken as caseless and not
  decimal, which is what they are for the CJK ideographs, the fullwidth punctuation and
  the symbols of the program's configuration and of the documents evaluated below.
\<close>

definition ascii_digit :: "nat \<Rightarrow> bool" where
  "ascii_digit c = (48 \<le> c \<and> c \<le> 57)"

definition latin_upper :: "nat \<Rightarrow> pystr" where
  "latin_upper c =
     (if c = 181 then [924]
      else if c = 223 then [83, 83]
      else if 224 \<le> c \<and> c \<le> 254 \<and> c \<noteq> 247 then [c - 32]
      else if c = 255 then [376]
      else [c])"

definition latin_lower :: "nat \<Rightarrow> nat" where
  "latin_lower c = (if 65 \<le> c \<and> c \<le> 90 then c + 32 else c)"

text \<open>
  \<open>float(s)\<close> on ASCII text: surrounding whitespace is stripped; a sign; then \<open>inf\<close>,
  \<open>infinity\<close> or \<open>nan\<close> in any case, or a decimal numeral with an optional fraction and
  exponent, in which single underscores may stand between digits. The numeral's value is
  rounded to the nearest double, ties to even.
\<close>

fun drop_underscores :: "nat \<Rightarrow> pystr \<Rightarrow> pystr option" where
  "drop_underscores prev [] = (if prev = 95 then None else Some [])"
| "drop_underscores prev (c # cs) =
     (if c = 95 then
        (if ascii_digit prev then drop_underscores c cs else None)
      else if prev = 95 \<and> \<not> ascii_digit c then None
      else map_option ((#) c) (drop_underscores c cs))"

definition digits_value :: "pystr \<Rightarrow> nat" where
  "digits_value ds = foldl (\<lambda>a c. 10 * a + (c - 48)) 0 ds"

fun bit_length :: "nat \<Rightarrow> nat" where
  "bit_length n = (if n = 0 then 0 else Suc (bit_length (n div 2)))"

declare bit_length.simps [simp del]

text \<open>The double nearest to \<open>num / den\<close> (\<open>den > 0\<close>), ties to even, with overflow to infinity.\<close>

definition round_to_double :: "nat \<Rightarrow> nat \<Rightarrow> pyfloat" where
  "round_to_double num den =
     (if num = 0 then Finite 0
      else
        let k0 = int (bit_length num) - int (bit_length den);
            k = (if (if 0 \<le> k0 then den * 2 ^ nat k0 \<le> num else den \<le> num * 2 ^ nat (- k0))
                 then k0 else k0 - 1);
            s = 52 - max k (- 1022);
            a = (if 0 \<le> s then num * 2 ^ nat s else num);
            b = (if 0 \<le> s then den else den * 2 ^ nat (- s));
            m0 = a div b;
            r = a mod b;
            m = (if b < 2 * r \<or> (2 * r = b \<and> odd m0) then m0 + 1 else m0)
        in if 0 \<le> s then Finite (of_nat m / 2 ^ nat s)
           else if 2 ^ 1024 \<le> m * 2 ^ nat (- s) then PosInf
           else Finite (of_nat (m * 2 ^ nat (- s))))"

definition float_neg :: "pyfloat \<Rightarrow> pyfloat" where
  "float_neg x = (case x of Finite q \<Rightarrow> Finite (- q) | PosInf \<Rightarrow> NegInf
                  | NegInf \<Rightarrow> PosInf | NaN \<Rightarrow> NaN)"

definition parse_exponent :: "pystr \<Rightarrow> int option" where
  "parse_exponent e =
     (let neg = (e \<noteq> [] \<and> hd e = 45);
          ds = (if e \<noteq> [] \<and> (hd e = 43 \<or> hd e = 45) then tl e else e)
      in if ds \<noteq> [] \<and> list_all ascii_digit ds
         then Some (if neg then - int (digits_value ds) else int (digits_value ds))
         else None)"

definition parse_decimal :: "pystr \<Rightarrow> pyfloat option" where
  "parse_decimal u =
     (let mant = takeWhile (\<lambda>c. c \<noteq> 101 \<and> c \<noteq> 69) u;
          rest = dropWhile (\<lambda>c. c \<noteq> 101 \<and> c \<noteq> 69) u;
          ip = takeWhile (\<lambda>c. c \<noteq> 46) mant;
          fp = (case dropWhile (\<lambda>c. c \<noteq> 46) mant of [] \<Rightarrow> [] | d # ds \<Rightarrow> ds)
      in if ip @ fp \<noteq> [] \<and> list_all ascii_digit (ip @ fp) then
           (case (if rest = [] then Some 0 else parse_exponent (tl rest)) of
              None \<Rightarrow> None
            | Some e \<Rightarrow>
                let x = e - int (length fp); n = digits_value (ip @ fp)
                in Some (if 0 \<le> x then round_to_double (n * 10 ^ nat x) 1
                         else round_to_double n (10 ^ nat (- x))))
         else None)"

definition latin_float :: "pystr \<Rightarrow> pyfloat option" where
  "latin_float s =
     (let t = py_strip s;
          neg = (t \<noteq> [] \<and> hd t = 45);
          u = (if t \<noteq> [] \<and> (hd t = 43 \<or> hd t = 45) then tl t else t);
          l = map latin_lower u;
          r = (if l = cps ''inf'' \<or> l = cps ''infinity'' then Some PosInf
               else if l = cps ''nan'' then Some NaN
               else (case drop_underscores 0 u of None \<Rightarrow> None | Some v \<Rightarrow> parse_decimal v))
      in if neg then map_option float_neg r else r)"

definition latin_rt :: runtime where
  "latin_rt = \<lparr>rt_isdecimal = (\<lambda>c. False), rt_upper = latin_upper, rt_float = latin_float\<rparr>"

section \<open>The regular expressions of the program\<close>

text \<open>
  The program builds three patterns: \<open>^\d+SEP\<close> and \<open>^\d+SEP\s*\<close>, where \<open>SEP\<close> is a
  configured separator pasted into the pattern as it is, and the fixed pattern of a
  fullwidth parenthesis pair around whitespace. They are sequences of one-character atoms,
  each taken once, one or more times, or any number of times. \<open>re_match_here\<close> is
  the backtracking matcher of \<open>re\<close> on such a sequence, anchored at the start of its
  argument: a repetition first takes as many characters as it can and gives them back one
  by one while the rest of the pattern fails. It returns what follows the match.
\<close>

datatype re_atom = Digit | Space | AnyChar | Lit nat

datatype re_item = Once re_atom | Many re_atom | Many1 re_atom

fun atom_matches :: "runtime \<Rightarrow> re_atom \<Rightarrow> nat \<Rightarrow> bool" where
  "atom_matches rt Digit c = py_isdecimal rt c"
| "atom_matches rt Space c = py_isspace c"
| "atom_matches rt AnyChar c = (c \<noteq> 10)"
| "atom_matches rt (Lit d) c = (c = d)"

fun re_match_here :: "runtime \<Rightarrow> re_item list \<Rightarrow> pystr \<Rightarrow> pystr option" where
  "re_match_here rt [] s = Some s"
| "re_match_here rt (Once a # p) [] = None"
| "re_match_here rt (Once a # p) (c # s) =
     (if atom_matches rt a c then re_match_here rt p s else None)"
| "re_match_here rt (Many1 a # p) [] = None"
| "re_match_here rt (Many1 a # p) (c # s) =
     (if atom_matches rt a c then re_match_here rt (Many a # p) s else None)"
| "re_match_here rt (Many a # p) [] = re_match_here rt p []"
| "re_match_here rt (Many a # p) (c # s) =
     (if atom_matches rt a c then
        (case re_match_here rt (Many a # p) s of
           Some r \<Rightarrow> Some r
         | None \<Rightarrow> re_match_here rt p (c # s))
      else re_match_here rt p (c # s))"

text \<open>
  A separator inside a pattern: the program does not escape it, so a \<open>.\<close> in it is the
  wildcard that matches any character but a newline, and every other character stands
  for itself. (Separators holding another metacharacter of \<open>re\<close>, such as \<open>*\<close> or \<open>(\<close>,
  are outside this fragment; the default separators are inside.)
\<close>

definition re_separator :: "pystr \<Rightarrow> re_item list" where
  "re_separator sep = map (\<lambda>c. Once (if c = 46 then AnyChar else Lit c)) sep"

text \<open>
  \<open>re.sub(p, repl, s)\<close> for a pattern that starts with \<open>^\<close>: only a match at the start of
  the string is replaced.
\<close>

definition re_sub_start :: "runtime \<Rightarrow> re_item list \<Rightarrow> pystr \<Rightarrow> pystr \<Rightarrow> pystr" where
  "re_sub_start rt p repl s =
     (case re_match_here rt p s of Some r \<Rightarrow> repl @ r | None \<Rightarrow> s)"

text \<open>
  \<open>re.sub(p, repl, s)\<close> for a pattern without anchor: the string is scanned from the left,
  every match is replaced and the scan goes on behind it (one character further after an
  empty match).
\<close>

function re_sub :: "runtime \<Rightarrow> re_item list \<Rightarrow> pystr \<Rightarrow> pystr \<Rightarrow> pystr" where
  "re_sub rt p repl s =
     (case re_match_here rt p s of
        Some r \<Rightarrow>
          if length r < length s then repl @ re_sub rt p repl r
          else (case s of [] \<Rightarrow> repl | c # t \<Rightarrow> repl @ c # re_sub rt p repl t)
      | None \<Rightarrow> (case s of [] \<Rightarrow> [] | c # t \<Rightarrow> c # re_sub rt p repl t))"
  by pat_completeness auto
termination
  by (relation "measure (\<lambda>(rt, p, repl, s). length s)") auto

declare re_sub.simps [simp del]

section \<open>QuestionConfig\<close>

datatype tag_type = TagAnswer | TagDifficulty | TagKnowledge | TagExplanation

record config =
  separators :: "pystr list"
  tags :: "tag_type \<Rightarrow> pystr list"
  easy_threshold :: pyfloat
  easy_name :: pystr
  medium_threshold :: pyfloat
  medium_name :: pystr
  hard_name :: pystr
  options :: "pystr list"
  judge_answers :: "pystr list"
  output_columns :: "pystr list"

text \<open>The labels of the default configuration, as code points.\<close>

definition default_tags :: "tag_type \<Rightarrow> pystr list" where
  "default_tags t =
     (case t of
        TagAnswer \<Rightarrow>
          [[12304, 31572, 26696, 12305], [91, 31572, 26696, 93],
           [31572, 26696, 65306], [31572, 26696, 58]]
      | TagDifficulty \<Rightarrow>
          [[12304, 38590, 24230, 12305], [91, 38590, 24230, 93],
           [38590, 24230, 65306], [38590, 24230, 58]]
      | TagKnowledge \<Rightarrow>
          [[12304, 30693, 35782, 28857, 12305], [91, 30693, 35782, 28857, 93],
           [30693, 35782, 28857, 65306], [30693, 35782, 28857, 58]]
      | TagExplanation \<Rightarrow>
          [[12304, 35814, 35299, 12305], [91, 35814, 35299, 93],
           [35299, 26512, 65306], [35299, 26512, 58]])"

text \<open>
  The column names of the export: question type, title, options, option count, answer,
  explanation, knowledge point, difficulty.
\<close>

definition col_type :: pystr where "col_type = [39064, 22411]"
definition col_title :: pystr where "col_title = [39064, 24178]"
definition col_options :: pystr where "col_options = [36873, 39033]"
definition col_option_count :: pystr where "col_option_count = [36873, 39033, 25968, 37327]"
definition col_answer :: pystr where "col_answer = [31572, 26696]"
definition col_explanation :: pystr where "col_explanation = [35299, 26512]"
definition col_knowledge :: pystr where "col_knowledge = [25152, 23646, 30693, 35782, 28857]"
definition col_difficulty :: pystr where "col_difficulty = [38590, 24230]"
definition col_has_image :: pystr where "col_has_image = cps ''has_image''"

text \<open>
  \<open>default_config\<close>: separators fullwidth full stop and \<open>.\<close>; both thresholds the double
  written \<open>0.85\<close>; options A to D; the judge answers T, F, two Chinese pairs for
  right and wrong, TRUE, FALSE, the check mark and the multiplication sign, and
  true/false in lower and title case.
\<close>

definition default_config :: config where
  "default_config =
     \<lparr>separators = [[65294], [46]],
      tags = default_tags,
      easy_threshold = Finite (7656119366529843 / 9007199254740992),
      easy_name = [26131],
      medium_threshold = Finite (7656119366529843 / 9007199254740992),
      medium_name = [20013],
      hard_name = [38590],
      options = [[65], [66], [67], [68]],
      judge_answers =
        [[84], [70], [23545], [38169], cps ''TRUE'', cps ''FALSE'', [8730], [215],
         cps ''true'', cps ''false'', cps ''True'', cps ''False'',
         [27491, 30830], [38169, 35823]],
      output_columns =
        [col_type, col_title, col_options, col_option_count, col_answer,
         col_explanation, col_knowledge, col_difficulty]\<rparr>"

text \<open>\<open>get_tag_content\<close>: the text behind the first configured label it starts with.\<close>

definition get_tag_content :: "config \<Rightarrow> pystr \<Rightarrow> tag_type \<Rightarrow> pystr option" where
  "get_tag_content cfg text tag_type =
     (case find (\<lambda>tag. prefix tag text) (tags cfg tag_type) of
        Some tag \<Rightarrow> Some (py_strip (drop (length tag) text))
      | None \<Rightarrow> None)"

text \<open>
  \<open>determine_difficulty\<close>, with the records it writes to the log. The message of the
  warning is the Chinese for "cannot parse the difficulty value: " and the token.
\<close>

datatype log_record = Warning pystr

definition msg_cannot_parse :: pystr where
  "msg_cannot_parse = [26080, 27861, 35299, 26512, 38590, 24230, 20540, 58, 32]"

definition determine_difficulty :: "runtime \<Rightarrow> config \<Rightarrow> pystr \<Rightarrow> pystr \<times> log_record list" where
  "determine_difficulty rt cfg v =
     (case rt_float rt v of
        Some x \<Rightarrow>
          if float_lt x (easy_threshold cfg) then (easy_name cfg, [])
          else if float_eq x (medium_threshold cfg) then (medium_name cfg, [])
          else (hard_name cfg, [])
      | None \<Rightarrow> (medium_name cfg, [Warning (msg_cannot_parse @ v)]))"

section \<open>QuestionType\<close>

text \<open>The five type labels: single choice, multiple choice, judgment, fill in the blank, unknown.\<close>

definition single_choice :: pystr where "single_choice = [21333, 36873, 39064]"
definition multi_choice :: pystr where "multi_choice = [22810, 36873, 39064]"
definition judge_question :: pystr where "judge_question = [21028, 26029, 39064]"
definition fill_blank :: pystr where "fill_blank = [22635, 31354, 39064]"
definition unknown_type :: pystr where "unknown_type = [26410, 30693, 31867, 22411]"

text \<open>
  \<open>determine_type\<close>. The argument is \<open>None\<close> for Python's \<open>None\<close>. The set of characters
  of the answer is compared with the set of option strings, so a character is valid when
  the one-character string of it is an option.
\<close>

definition determine_type :: "runtime \<Rightarrow> config \<Rightarrow> pystr option \<Rightarrow> pystr" where
  "determine_type rt cfg answer_arg =
     (case answer_arg of
        None \<Rightarrow> unknown_type
      | Some original_answer \<Rightarrow>
          if original_answer = [] then unknown_type
          else
            let answer = py_strip (py_upper rt original_answer) in
            if list_ex (\<lambda>judge_ans. judge_ans = original_answer \<or> py_upper rt judge_ans = answer)
                 (judge_answers cfg)
            then judge_question
            else
              let answer_chars = filter (\<lambda>c. c \<noteq> 32) answer in
              if answer_chars \<noteq> [] \<and> list_all (\<lambda>c. [c] \<in> set (options cfg)) answer_chars
              then (if 1 < length answer_chars then multi_choice else single_choice)
              else fill_blank)"

text \<open>\<open>count_options\<close>: the loop over the options with its counter.\<close>

definition option_present :: "pystr \<Rightarrow> pystr \<Rightarrow> bool" where
  "option_present choices opt =
     (sublist (opt @ [46]) choices \<or> sublist (opt @ [65294]) choices
      \<or> sublist (opt @ [32]) choices)"

definition count_options :: "runtime \<Rightarrow> config \<Rightarrow> pystr \<Rightarrow> nat" where
  "count_options rt cfg choices =
     (if choices = [] then 0
      else fold (\<lambda>opt count. if option_present (py_upper rt choices) opt then count + 1 else count)
             (options cfg) 0)"

section \<open>QuestionProcessor\<close>

text \<open>
  A paragraph of the document is its text and its runs. \<open>has_image\<close> asks each run's
  XML element for its drawings and then for its pictures; either lookup gives the
  number of elements found or raises, and the method catches what is raised and
  answers \<open>False\<close>.
\<close>

datatype lookup = Elements nat | Raises

record run =
  run_drawing :: lookup
  run_pict :: lookup

record docx_paragraph =
  para_text :: pystr
  para_runs :: "run list"

fun has_image_runs :: "run list \<Rightarrow> bool" where
  "has_image_runs [] = False"
| "has_image_runs (r # rs) =
     (case run_drawing r of
        Raises \<Rightarrow> False
      | Elements n \<Rightarrow>
          if 0 < n then True
          else (case run_pict r of
                  Raises \<Rightarrow> False
                | Elements m \<Rightarrow> if 0 < m then True else has_image_runs rs))"

definition has_image :: "docx_paragraph \<Rightarrow> bool" where
  "has_image para = has_image_runs (para_runs para)"

definition is_question_start :: "runtime \<Rightarrow> config \<Rightarrow> pystr \<Rightarrow> bool" where
  "is_question_start rt cfg text =
     list_ex (\<lambda>sep. re_match_here rt (Many1 Digit # re_separator sep) (py_strip text) \<noteq> None)
       (separators cfg)"

definition is_option_start :: "config \<Rightarrow> pystr \<Rightarrow> bool" where
  "is_option_start cfg text =
     list_ex (\<lambda>opt. prefix (opt @ [46]) (py_strip text) \<or> prefix (opt @ [65294]) (py_strip text))
       (options cfg)"

definition remove_question_number :: "runtime \<Rightarrow> config \<Rightarrow> pystr \<Rightarrow> pystr" where
  "remove_question_number rt cfg text =
     fold (\<lambda>sep t. re_sub_start rt (Many1 Digit # re_separator sep @ [Many Space]) [] t)
       (separators cfg) text"

text \<open>
  \<open>current_question\<close> is a dictionary with the key \<open>title\<close> and, once their tag lines
  were seen, the keys \<open>answer\<close>, \<open>difficulty\<close>, \<open>knowledge\<close> and \<open>explanation\<close>: a
  record whose optional fields are \<open>None\<close> while the key is absent.
\<close>

record question =
  q_title :: pystr
  q_answer :: "pystr option"
  q_difficulty :: "pystr option"
  q_knowledge :: "pystr option"
  q_explanation :: "pystr option"

record data_lists =
  title_list :: "pystr list"
  choice_list :: "pystr list"
  answer_list :: "pystr list"
  difficulty_list :: "pystr list"
  knowledge_list :: "pystr list"
  explain_list :: "pystr list"
  type_list :: "pystr list"
  option_count_list :: "nat list"
  has_image_list :: "bool list"

text \<open>The local variables of \<open>process_document\<close> that its loop and its closure update.\<close>

record state =
  data :: data_lists
  current_question :: "question option"
  collecting_title :: bool
  current_title_lines :: "pystr list"
  current_choices :: "pystr list"
  current_has_image :: bool

definition empty_data :: data_lists where
  "empty_data =
     \<lparr>title_list = [], choice_list = [], answer_list = [], difficulty_list = [],
      knowledge_list = [], explain_list = [], type_list = [], option_count_list = [],
      has_image_list = []\<rparr>"

definition initial_state :: state where
  "initial_state =
     \<lparr>data = empty_data, current_question = None, collecting_title = False,
      current_title_lines = [], current_choices = [], current_has_image = False\<rparr>"

text \<open>The pattern and the replacement of the blank-parenthesis clean-up of a title.\<close>

definition blank_paren_pattern :: "re_item list" where
  "blank_paren_pattern = [Once (Lit 65288), Many Space, Once (Lit 65289)]"

definition blank_paren :: pystr where
  "blank_paren = [65288, 32, 32, 32, 65289]"

definition or_empty :: "pystr option \<Rightarrow> pystr" where
  "or_empty v = (case v of None \<Rightarrow> [] | Some x \<Rightarrow> x)"

definition save_current_question :: "runtime \<Rightarrow> config \<Rightarrow> state \<Rightarrow> state" where
  "save_current_question rt cfg st =
     (case current_question st of
        None \<Rightarrow> st
      | Some q \<Rightarrow>
          let full_title = py_join [32] (current_title_lines st);
              cleaned_title = re_sub rt blank_paren_pattern blank_paren full_title;
              cleaned_title = remove_question_number rt cfg cleaned_title;
              choice_text = (if current_choices st \<noteq> [] then py_join [10] (current_choices st)
                             else []);
              answer = or_empty (q_answer q);
              question_type = determine_type rt cfg (Some answer);
              d = data st
          in st\<lparr>data :=
                  \<lparr>title_list = title_list d @ [cleaned_title],
                   choice_list = choice_list d @ [choice_text],
                   answer_list = answer_list d @ [answer],
                   difficulty_list = difficulty_list d @ [or_empty (q_difficulty q)],
                   knowledge_list = knowledge_list d @ [or_empty (q_knowledge q)],
                   explain_list = explain_list d @ [or_empty (q_explanation q)],
                   type_list = type_list d @ [question_type],
                   option_count_list = option_count_list d @ [count_options rt cfg choice_text],
                   has_image_list = has_image_list d @ [current_has_image st]\<rparr>,
                current_title_lines := [],
                current_choices := [],
                current_has_image := False\<rparr>)"

definition has_tag :: "config \<Rightarrow> tag_type \<Rightarrow> pystr \<Rightarrow> bool" where
  "has_tag cfg tag_type text = list_ex (\<lambda>tag. prefix tag text) (tags cfg tag_type)"

text \<open>
  One round of the loop over the paragraphs: the chain of \<open>if\<close> and \<open>elif\<close> in the
  order of the source. (In the tag branches \<open>get_tag_content\<close> cannot answer \<open>None\<close>,
  since the text starts with one of the labels.)
\<close>

definition step :: "runtime \<Rightarrow> config \<Rightarrow> state \<Rightarrow> docx_paragraph \<Rightarrow> state" where
  "step rt cfg st para =
     (let text = py_strip (para_text para) in
      if text = [] then st
      else if is_question_start rt cfg text then
        (save_current_question rt cfg st)
          \<lparr>current_question :=
             Some \<lparr>q_title = text, q_answer = None, q_difficulty = None,
                   q_knowledge = None, q_explanation = None\<rparr>,
           collecting_title := True,
           current_title_lines := [text],
           current_has_image := has_image para\<rparr>
      else if is_option_start cfg text then
        st\<lparr>collecting_title := False, current_choices := current_choices st @ [text]\<rparr>
      else if has_tag cfg TagAnswer text then
        (case (get_tag_content cfg text TagAnswer, current_question st) of
           (Some answer_text, Some q) \<Rightarrow>
             if answer_text \<noteq> [] then st\<lparr>current_question := Some (q\<lparr>q_answer := Some answer_text\<rparr>)\<rparr>
             else st
         | _ \<Rightarrow> st)
      else if has_tag cfg TagDifficulty text then
        (case (get_tag_content cfg text TagDifficulty, current_question st) of
           (Some difficulty_text, Some q) \<Rightarrow>
             st\<lparr>current_question :=
                  Some (q\<lparr>q_difficulty := Some (fst (determine_difficulty rt cfg difficulty_text))\<rparr>)\<rparr>
         | _ \<Rightarrow> st)
      else if has_tag cfg TagKnowledge text then
        (case (get_tag_content cfg text TagKnowledge, current_question st) of
           (Some knowledge_text, Some q) \<Rightarrow>
             st\<lparr>current_question := Some (q\<lparr>q_knowledge := Some knowledge_text\<rparr>)\<rparr>
         | _ \<Rightarrow> st)
      else if has_tag cfg TagExplanation text then
        (case (get_tag_content cfg text TagExplanation, current_question st) of
           (Some explain_text, Some q) \<Rightarrow>
             st\<lparr>current_question := Some (q\<lparr>q_explanation := Some explain_text\<rparr>)\<rparr>
         | _ \<Rightarrow> st)
      else if collecting_title st then
        st\<lparr>current_title_lines := current_title_lines st @ [text],
           current_has_image := (if \<not> current_has_image st then has_image para
                                 else current_has_image st)\<rparr>
      else st)"

text \<open>
  \<open>process_document\<close>: the document is \<open>None\<close> when it cannot be opened, which the
  method logs and raises again; otherwise its paragraphs go through the loop and the last
  question is saved. (The statistics and the informational log lines are left out.)
\<close>

datatype error = DocumentOpenError | KeyError

definition run_paragraphs :: "runtime \<Rightarrow> config \<Rightarrow> state \<Rightarrow> docx_paragraph list \<Rightarrow> state" where
  "run_paragraphs rt cfg st paras = foldl (step rt cfg) st paras"

definition process_document :: "runtime \<Rightarrow> config \<Rightarrow> docx_paragraph list option \<Rightarrow> error + data_lists" where
  "process_document rt cfg doc =
     (case doc of
        None \<Rightarrow> Inl DocumentOpenError
      | Some paras \<Rightarrow>
          Inr (data (save_current_question rt cfg (run_paragraphs rt cfg initial_state paras))))"

text \<open>A paragraph of plain text, without or with a picture in its one run.\<close>

definition plain :: "pystr \<Rightarrow> docx_paragraph" where
  "plain t = \<lparr>para_text = t, para_runs = [\<lparr>run_drawing = Elements 0, run_pict = Elements 0\<rparr>]\<rparr>"

definition pictured :: "pystr \<Rightarrow> docx_paragraph" where
  "pictured t = \<lparr>para_text = t, para_runs = [\<lparr>run_drawing = Elements 1, run_pict = Elements 0\<rparr>]\<rparr>"

section \<open>QuestionExporter\<close>

text \<open>
  A row is a dictionary from column names to values, kept as an association list in
  insertion order; assigning to a key that is present keeps its place.
\<close>

datatype pyval = StrVal pystr | IntVal nat | BoolVal bool

type_synonym row = "(pystr \<times> pyval) list"

definition nth_or :: "'a list \<Rightarrow> nat \<Rightarrow> 'a \<Rightarrow> 'a" where
  "nth_or xs i d = (if i < length xs then xs ! i else d)"

text \<open>
  \<open>prepare_excel_data\<close>: one dictionary for each index of \<open>title_list\<close>; the other lists are
  read behind a length check with a default.
\<close>

definition question_data :: "data_lists \<Rightarrow> nat \<Rightarrow> row" where
  "question_data d i =
     [(col_type, StrVal (nth_or (type_list d) i [])),
      (col_title, StrVal (title_list d ! i)),
      (col_options, StrVal (nth_or (choice_list d) i [])),
      (col_option_count, IntVal (nth_or (option_count_list d) i 0)),
      (col_answer, StrVal (nth_or (answer_list d) i [])),
      (col_explanation, StrVal (nth_or (explain_list d) i [])),
      (col_knowledge, StrVal (nth_or (knowledge_list d) i [])),
      (col_difficulty, StrVal (nth_or (difficulty_list d) i [])),
      (col_has_image, BoolVal (nth_or (has_image_list d) i False))]"

definition prepare_excel_data :: "data_lists \<Rightarrow> row list" where
  "prepare_excel_data d = map (question_data d) [0..<length (title_list d)]"

definition type_order :: "pystr list" where
  "type_order = [single_choice, multi_choice, judge_question, fill_blank, unknown_type]"

definition empty_row :: "config \<Rightarrow> row" where
  "empty_row cfg =
     AList.update col_has_image (BoolVal False)
       (foldl (\<lambda>r key. AList.update key (StrVal []) r) [] (output_columns cfg))"

definition has_type :: "pystr \<Rightarrow> row \<Rightarrow> bool" where
  "has_type question_type q = (map_of q col_type = Some (StrVal question_type))"

text \<open>The loop over \<open>type_order\<close> that fills \<open>grouped_data\<close>.\<close>

fun group_loop :: "config \<Rightarrow> row list \<Rightarrow> pystr list \<Rightarrow> row list \<Rightarrow> row list" where
  "group_loop cfg excel_data [] grouped_data = grouped_data"
| "group_loop cfg excel_data (question_type # rest) grouped_data =
     (let type_questions = filter (has_type question_type) excel_data in
      if type_questions \<noteq> [] then
        group_loop cfg excel_data rest
          ((if grouped_data \<noteq> [] then grouped_data @ [empty_row cfg] else grouped_data)
           @ type_questions)
      else group_loop cfg excel_data rest grouped_data)"

definition group_rows :: "config \<Rightarrow> row list \<Rightarrow> row list" where
  "group_rows cfg excel_data = group_loop cfg excel_data type_order []"

text \<open>
  \<open>pd.DataFrame(rows)[columns]\<close>: the frame's columns are the keys of the rows in the order
  of their first appearance, and selecting a list of labels raises \<open>KeyError\<close> when one of
  them is not a column. A cell is \<open>None\<close> where the row has no such key.
\<close>

definition frame_columns :: "row list \<Rightarrow> pystr list" where
  "frame_columns rows =
     foldl (\<lambda>acc k. if k \<in> set acc then acc else acc @ [k]) [] (concat (map (map fst) rows))"

definition select_columns :: "pystr list \<Rightarrow> row list \<Rightarrow> error + pyval option list list" where
  "select_columns columns rows =
     (if list_all (\<lambda>c. c \<in> set (frame_columns rows)) columns
      then Inr (map (\<lambda>r. map (map_of r) columns) rows)
      else Inl KeyError)"

fun truthy :: "pyval option \<Rightarrow> bool" where
  "truthy None = False"
| "truthy (Some (BoolVal b)) = b"
| "truthy (Some (StrVal s)) = (s \<noteq> [])"
| "truthy (Some (IntVal n)) = (n \<noteq> 0)"

text \<open>
  The sheet that is written: the header, the rows, and for each row whether it gets the
  light blue fill. (Column widths, alignment, the bold header and the file name are left
  out.) \<open>export_to_excel\<close> logs an exception and raises it again.
\<close>

record sheet =
  sheet_header :: "pystr list"
  sheet_rows :: "pyval option list list"
  sheet_fill :: "bool list"

definition export_to_excel :: "config \<Rightarrow> data_lists \<Rightarrow> error + sheet" where
  "export_to_excel cfg d =
     (let excel_data = prepare_excel_data d;
          grouped_data = group_rows cfg excel_data
      in case select_columns (output_columns cfg) grouped_data of
           Inl e \<Rightarrow> Inl e
         | Inr cells \<Rightarrow>
             Inr \<lparr>sheet_header = output_columns cfg,
                  sheet_rows = cells,
                  sheet_fill = map (\<lambda>r. truthy (map_of r col_has_image)) grouped_data\<rparr>)"

section \<open>QuestionBank\<close>

definition process_file :: "runtime \<Rightarrow> config \<Rightarrow> docx_paragraph list option \<Rightarrow> error + sheet" where
  "process_file rt cfg doc =
     (case process_document rt cfg doc of
        Inl e \<Rightarrow> Inl e
      | Inr d \<Rightarrow> export_to_excel cfg d)"

section \<open>Notions used to state the properties\<close>

text \<open>
  The kind of a paragraph: the branch of the loop's \<open>if\<close>/\<open>elif\<close> chain that its
  stripped text selects, in the order of the chain.
\<close>

datatype line_kind =
  Blank | QuestionStart | OptionStart | AnswerTag | DifficultyTag | KnowledgeTag
  | ExplanationTag | Content

definition kind_of :: "runtime \<Rightarrow> config \<Rightarrow> docx_paragraph \<Rightarrow> line_kind" where
  "kind_of rt cfg para =
     (let text = py_strip (para_text para) in
      if text = [] then Blank
      else if is_question_start rt cfg text then QuestionStart
      else if is_option_start cfg text then OptionStart
      else if has_tag cfg TagAnswer text then AnswerTag
      else if has_tag cfg TagDifficulty text then DifficultyTag
      else if has_tag cfg TagKnowledge text then KnowledgeTag
      else if has_tag cfg TagExplanation text then ExplanationTag
      else Content)"

text \<open>
  The blocks of a document: each question-start paragraph with the paragraphs that follow
  it up to the next question start. The title paragraphs of a block's body are its
  content paragraphs before its first option line.
\<close>

fun blocks :: "runtime \<Rightarrow> config \<Rightarrow> docx_paragraph list
    \<Rightarrow> (docx_paragraph \<times> docx_paragraph list) list" where
  "blocks rt cfg [] = []"
| "blocks rt cfg (p # ps) =
     (if kind_of rt cfg p = QuestionStart
      then (p, takeWhile (\<lambda>q. kind_of rt cfg q \<noteq> QuestionStart) ps) # blocks rt cfg ps
      else blocks rt cfg ps)"

definition title_paragraphs :: "runtime \<Rightarrow> config \<Rightarrow> docx_paragraph list \<Rightarrow> docx_paragraph list" where
  "title_paragraphs rt cfg body =
     filter (\<lambda>p. kind_of rt cfg p = Content)
       (takeWhile (\<lambda>p. kind_of rt cfg p \<noteq> OptionStart) body)"

definition block_has_image :: "runtime \<Rightarrow> config \<Rightarrow> docx_paragraph \<times> docx_paragraph list \<Rightarrow> bool" where
  "block_has_image rt cfg b =
     (has_image (fst b) \<or> list_ex has_image (title_paragraphs rt cfg (snd b)))"

text \<open>Groups of rows joined with one separator row between neighbours.\<close>

fun join_groups :: "'a \<Rightarrow> 'a list list \<Rightarrow> 'a list" where
  "join_groups s [] = []"
| "join_groups s [g] = g"
| "join_groups s (g # h # gs) = g @ [s] @ join_groups s (h # gs)"

definition type_groups :: "row list \<Rightarrow> pystr list \<Rightarrow> row list list" where
  "type_groups rows ts = filter (\<lambda>g. g \<noteq> []) (map (\<lambda>t. filter (has_type t) rows) ts)"

text \<open>
  The conditions of \<open>determine_type\<close>: an answer matches the judge vocabulary when an
  entry equals it as it was given, or when the entry in upper case equals the answer in
  upper case and stripped; its choice letters are what is left of the stripped upper-case
  answer once the spaces (U+0020) are taken out.
\<close>

definition judge_match :: "runtime \<Rightarrow> config \<Rightarrow> pystr \<Rightarrow> bool" where
  "judge_match rt cfg a =
     list_ex (\<lambda>j. j = a \<or> py_upper rt j = py_strip (py_upper rt a)) (judge_answers cfg)"

definition choice_letters :: "runtime \<Rightarrow> pystr \<Rightarrow> pystr" where
  "choice_letters rt a = filter (\<lambda>c. c \<noteq> 32) (py_strip (py_upper rt a))"

definition all_options :: "config \<Rightarrow> pystr \<Rightarrow> bool" where
  "all_options cfg cs = list_all (\<lambda>c. [c] \<in> set (options cfg)) cs"

text \<open>A code point that \<open>str.upper\<close> leaves as it is.\<close>

definition caseless :: "runtime \<Rightarrow> nat \<Rightarrow> bool" where
  "caseless rt c = (rt_upper rt c = [c])"

text \<open>The answer line of the sample document: the bracketed answer label and \<open>A\<close>.\<close>

definition tag_answer_A :: pystr where
  "tag_answer_A = [12304, 31572, 26696, 12305, 65]"

text \<open>
  The records that \<open>process_document\<close> hands to the exporter are typed: every title has
  its type, and every type is one of the five of \<open>type_order\<close>.
\<close>

definition typed_data :: "data_lists \<Rightarrow> bool" where
  "typed_data d =
     (length (type_list d) = length (title_list d) \<and> set (type_list d) \<subseteq> set type_order)"

text \<open>A row with a type and a title only, for examples.\<close>

definition typed_row :: "pystr \<Rightarrow> pystr \<Rightarrow> row" where
  "typed_row t title = [(col_type, StrVal t), (col_title, StrVal title)]"

section \<open>Evaluation\<close>

lemmas eval_defs = cps_def py_strip_def py_isspace_def py_upper_def upper_cp_def py_isdecimal_def
  default_config_def default_tags_def is_question_start_def is_option_start_def re_separator_def
  remove_question_number_def re_sub_start_def has_image_def has_tag_def get_tag_content_def
  determine_type_def count_options_def option_present_def save_current_question_def step_def
  run_paragraphs_def process_document_def initial_state_def empty_data_def plain_def pictured_def
  blank_paren_pattern_def blank_paren_def or_empty_def single_choice_def multi_choice_def
  judge_question_def fill_blank_def unknown_type_def re_sub.simps sublist_code Let_def

lemmas latin_defs = latin_rt_def latin_upper_def

lemmas float_defs = latin_float_def latin_lower_def ascii_digit_def parse_decimal_def
  parse_exponent_def round_to_double_def digits_value_def bit_length.simps float_neg_def

section \<open>The question classifier\<close>

text \<open>
  C4, as the code has it. \<open>determine_type\<close> answers the unknown type for \<open>None\<close> and for
  the empty answer. Otherwise it answers the judgment type when the answer matches the
  judge vocabulary (\<open>judge_match\<close>), before any choice matching. Otherwise it takes the
  answer in upper case, stripped, with its spaces (the character U+0020 only, not every
  whitespace character) removed: when at least one character is left and every one is
  an option, the type is single choice for one character and multiple choice for more;
  in every other case it is fill in the blank.
\<close>

theorem determine_type_cases:
  "determine_type rt cfg None = unknown_type
   \<and> determine_type rt cfg (Some []) = unknown_type
   \<and> (a \<noteq> [] \<and> judge_match rt cfg a \<longrightarrow> determine_type rt cfg (Some a) = judge_question)
   \<and> (a \<noteq> [] \<and> \<not> judge_match rt cfg a \<and> all_options cfg (choice_letters rt a)
        \<and> length (choice_letters rt a) = 1
      \<longrightarrow> determine_type rt cfg (Some a) = single_choice)
   \<and> (a \<noteq> [] \<and> \<not> judge_match rt cfg a \<and> all_options cfg (choice_letters rt a)
        \<and> 1 < length (choice_letters rt a)
      \<longrightarrow> determine_type rt cfg (Some a) = multi_choice)
   \<and> (a \<noteq> [] \<and> \<not> judge_match rt cfg a
        \<and> (choice_letters rt a = [] \<or> \<not> all_options cfg (choice_letters rt a))
      \<longrightarrow> determine_type rt cfg (Some a) = fill_blank)"
  by (cases "choice_letters rt a")
     (auto simp: determine_type_def judge_match_def choice_letters_def all_options_def Let_def)

text \<open>
  The four branches at the default configuration: \<open>tRuE\<close> with a trailing space is a
  judgment, \<open>b\<close> a single choice, \<open>a c\<close> a multiple choice and \<open>42\<close> a blank to fill.
\<close>

theorem determine_type_cases_witness:
  "determine_type latin_rt default_config (Some (cps ''tRuE '')) = judge_question
   \<and> determine_type latin_rt default_config (Some (cps ''b'')) = single_choice
   \<and> determine_type latin_rt default_config (Some (cps ''a c'')) = multi_choice
   \<and> determine_type latin_rt default_config (Some (cps ''42'')) = fill_blank"
  using determine_type_cases [of latin_rt default_config "cps ''tRuE ''"]
    determine_type_cases [of latin_rt default_config "cps ''b''"]
    determine_type_cases [of latin_rt default_config "cps ''a c''"]
    determine_type_cases [of latin_rt default_config "cps ''42''"]
  by (simp add: judge_match_def choice_letters_def all_options_def eval_defs latin_defs)

text \<open>
  C4 as the specification words it removes "internal whitespace". The answer \<open>A\<close>, tab,
  \<open>B\<close> is no judge answer; the tab is whitespace, and without its whitespace the upper-case
  answer is \<open>AB\<close>, two option letters; yet the classifier answers fill in the blank, not
  multiple choice, since it removes spaces only.
\<close>

theorem tab_between_letters_is_fill_blank:
  "determine_type latin_rt default_config (Some [65, 9, 66]) = fill_blank
   \<and> \<not> judge_match latin_rt default_config [65, 9, 66]
   \<and> py_isspace 9
   \<and> filter (\<lambda>c. \<not> py_isspace c) (py_upper latin_rt [65, 9, 66]) = [65, 66]
   \<and> all_options default_config [65, 66]
   \<and> fill_blank \<noteq> multi_choice"
  by (simp add: judge_match_def all_options_def eval_defs latin_defs)

section \<open>The difficulty mapper\<close>

text \<open>
  C5. When the token does not parse as a number, \<open>determine_difficulty\<close> logs a warning
  and answers the medium label. When it parses, the branches are tried in order: a value
  below the easy threshold gives the easy label; otherwise a value equal to the medium
  threshold gives the medium label; otherwise the hard label. Where the medium threshold
  is not below the easy one, as in the default configuration, a value equal to the
  medium threshold always gives the medium label.
\<close>

theorem determine_difficulty_cases:
  "(rt_float rt v = None
      \<longrightarrow> determine_difficulty rt cfg v = (medium_name cfg, [Warning (msg_cannot_parse @ v)]))
   \<and> (rt_float rt v = Some x \<and> float_lt x (easy_threshold cfg)
      \<longrightarrow> determine_difficulty rt cfg v = (easy_name cfg, []))
   \<and> (rt_float rt v = Some x \<and> \<not> float_lt x (easy_threshold cfg)
        \<and> float_eq x (medium_threshold cfg)
      \<longrightarrow> determine_difficulty rt cfg v = (medium_name cfg, []))
   \<and> (rt_float rt v = Some x \<and> \<not> float_lt x (easy_threshold cfg)
        \<and> \<not> float_eq x (medium_threshold cfg)
      \<longrightarrow> determine_difficulty rt cfg v = (hard_name cfg, []))
   \<and> (rt_float rt v = Some x \<and> float_eq x (medium_threshold cfg)
        \<and> \<not> float_lt (medium_threshold cfg) (easy_threshold cfg)
      \<longrightarrow> determine_difficulty rt cfg v = (medium_name cfg, []))"
proof -
  have "float_eq x m \<Longrightarrow> \<not> float_lt m e \<Longrightarrow> \<not> float_lt x e" for m e
    by (cases x; cases m; cases e) auto
  then show ?thesis
    by (auto simp: determine_difficulty_def)
qed

text \<open>
  At the default configuration: \<open>abc\<close> does not parse, \<open>0.5\<close> is easy, \<open>0.85\<close> is the
  medium threshold itself and \<open>0.9\<close> is hard.
\<close>

theorem determine_difficulty_cases_witness:
  "determine_difficulty latin_rt default_config (cps ''abc'')
     = ([20013], [Warning (msg_cannot_parse @ cps ''abc'')])
   \<and> determine_difficulty latin_rt default_config (cps ''0.5'') = ([26131], [])
   \<and> determine_difficulty latin_rt default_config (cps ''0.85'') = ([20013], [])
   \<and> determine_difficulty latin_rt default_config (cps ''0.9'') = ([38590], [])"
  using determine_difficulty_cases [of latin_rt "cps ''abc''" default_config]
    determine_difficulty_cases [of latin_rt "cps ''0.5''" default_config "Finite (1 / 2)"]
    determine_difficulty_cases [of latin_rt "cps ''0.85''" default_config
      "Finite (7656119366529843 / 9007199254740992)"]
    determine_difficulty_cases [of latin_rt "cps ''0.9''" default_config
      "Finite (8106479329266893 / 9007199254740992)"]
  by (simp add: latin_rt_def float_defs cps_def py_strip_def py_isspace_def default_config_def Let_def)

section \<open>The option counter\<close>

lemma sublist_across_newline:
  assumes "10 \<notin> set p"
  shows "sublist p (a @ 10 # b) \<longleftrightarrow> sublist p a \<or> sublist p b"
proof
  assume "sublist p (a @ 10 # b)"
  then consider "sublist p a" | "sublist p (10 # b)"
    | x1 x2 where "p = x1 @ x2" "suffix x1 a" "prefix x2 (10 # b)"
    by (auto simp: sublist_append)
  then show "sublist p a \<or> sublist p b"
  proof cases
    case 2
    then show ?thesis using assms
      by (cases p) (auto simp: sublist_Cons_right)
  next
    case 3
    then have "x2 = []" using assms by (cases x2) auto
    with 3 show ?thesis by auto
  qed simp
next
  assume "sublist p a \<or> sublist p b"
  then show "sublist p (a @ 10 # b)"
    by (auto simp: sublist_append sublist_Cons_right)
qed

lemma sublist_py_join:
  assumes "10 \<notin> set p" and "p \<noteq> []"
  shows "sublist p (py_join [10] ls) \<longleftrightarrow> (\<exists>l\<in>set ls. sublist p l)"
  using assms
  by (induction "[10::nat]" ls rule: py_join.induct) (auto simp: sublist_across_newline)

lemma py_upper_append: "py_upper rt (a @ b) = py_upper rt a @ py_upper rt b"
  by (simp add: py_upper_def)

lemma py_upper_join:
  "py_upper rt (py_join [10] ls) = py_join [10] (map (py_upper rt) ls)"
  by (induction "[10::nat]" ls rule: py_join.induct)
     (simp_all add: py_upper_append, simp_all add: py_upper_def upper_cp_def)

lemma fold_count:
  "fold (\<lambda>x n. if P x then n + 1 else n) xs (k::nat) = k + length (filter P xs)"
  by (induction xs arbitrary: k) auto

lemma option_present_nil: "\<not> option_present [] opt"
  by (simp add: option_present_def)

lemma count_options_filter:
  "count_options rt cfg choices
     = length (filter (option_present (py_upper rt choices)) (options cfg))"
  by (simp add: count_options_def fold_count py_upper_def option_present_nil)

lemma option_present_join:
  assumes "10 \<notin> set opt"
  shows "option_present (py_upper rt (py_join [10] ls)) opt
           \<longleftrightarrow> (\<exists>l\<in>set ls. option_present (py_upper rt l) opt)"
  using assms by (auto simp: option_present_def py_upper_join sublist_py_join)

text \<open>
  C7. \<open>count_options\<close> counts the options \<open>opt\<close> for which the upper-case text contains
  \<open>opt\<close> followed by a full stop, a fullwidth full stop or a space, so each option counts
  at most once, and the count of the empty text is 0. For option lines joined with
  newlines, as \<open>process_document\<close> joins them, and options that hold no newline, an option
  counts exactly when one of the lines has it: the count depends on the set of lines only,
  not on their order or on repetitions. The two texts of the specification's example
  both count 2.
\<close>

theorem count_options_letters:
  "count_options rt cfg choices
     = length (filter (option_present (py_upper rt choices)) (options cfg))
   \<and> count_options rt cfg [] = 0
   \<and> count_options rt cfg choices \<le> length (options cfg)
   \<and> ((\<forall>opt\<in>set (options cfg). 10 \<notin> set opt) \<longrightarrow>
        count_options rt cfg (py_join [10] ls)
          = length (filter (\<lambda>opt. \<exists>l\<in>set ls. option_present (py_upper rt l) opt) (options cfg)))
   \<and> ((\<forall>opt\<in>set (options cfg). 10 \<notin> set opt) \<and> set ls = set ls' \<longrightarrow>
        count_options rt cfg (py_join [10] ls) = count_options rt cfg (py_join [10] ls'))
   \<and> count_options rt default_config (cps ''A.x B.y'') = 2
   \<and> count_options rt default_config (cps ''B.y A.x A.x'') = 2"
proof -
  have join: "count_options rt cfg (py_join [10] xs)
      = length (filter (\<lambda>opt. \<exists>l\<in>set xs. option_present (py_upper rt l) opt) (options cfg))"
    if "\<forall>opt\<in>set (options cfg). 10 \<notin> set opt" for xs
    unfolding count_options_filter
    by (rule arg_cong [where f = length], rule filter_cong)
       (use that in \<open>auto simp: option_present_join\<close>)
  have ex1: "count_options rt default_config (cps ''A.x B.y'') = 2"
    by (simp add: cps_def count_options_def option_present_def py_upper_def upper_cp_def
          default_config_def sublist_code)
  have ex2: "count_options rt default_config (cps ''B.y A.x A.x'') = 2"
    by (simp add: cps_def count_options_def option_present_def py_upper_def upper_cp_def
          default_config_def sublist_code)
  have empty: "count_options rt cfg [] = 0"
    by (simp add: count_options_def)
  have bound: "count_options rt cfg choices \<le> length (options cfg)"
    by (simp add: count_options_filter)
  have same: "count_options rt cfg (py_join [10] ls) = count_options rt cfg (py_join [10] ls')"
    if "\<forall>opt\<in>set (options cfg). 10 \<notin> set opt" and "set ls = set ls'"
    using that by (simp add: join)
  show ?thesis
    using count_options_filter [of rt cfg choices] empty bound join [of ls] same ex1 ex2
    by blast
qed

text \<open>
  Four option lines, one of them twice and one with a letter that is no option, against
  the three distinct lines in another order: both count the two options A and B.
\<close>

theorem count_options_letters_witness:
  "count_options latin_rt default_config
      (py_join [10] [cps ''a.x'', cps ''B y'', cps ''a.x'', cps ''E.z''])
   = count_options latin_rt default_config
      (py_join [10] [cps ''B y'', cps ''E.z'', cps ''a.x''])
   \<and> count_options latin_rt default_config
      (py_join [10] [cps ''B y'', cps ''E.z'', cps ''a.x'']) = 2"
  using count_options_letters [of latin_rt default_config
      "py_join [10] [cps ''B y'', cps ''E.z'', cps ''a.x'']"
      "[cps ''a.x'', cps ''B y'', cps ''a.x'', cps ''E.z'']"
      "[cps ''B y'', cps ''E.z'', cps ''a.x'']"]
  by (simp add: cps_def option_present_def py_upper_def upper_cp_def
          default_config_def sublist_code insert_commute)

section \<open>The line classifier\<close>

text \<open>
  C1, evaluated on the default configuration. The heading \<open>2024\<close> followed by the
  character for "year" is taken as a question start, although what follows its digits is
  none of the configured separators: the separator \<open>.\<close> is pasted into the pattern
  unescaped and matches any character.
\<close>

theorem year_heading_is_question_start:
  "is_question_start rt default_config (cps ''2024'' @ [24180])
   \<and> \<not> list_ex (\<lambda>sep. prefix sep [24180]) (separators default_config)"
  by (simp add: eval_defs)

section \<open>The document segmenter\<close>

lemma save_data_has_image:
  "has_image_list (data (save_current_question rt cfg st)) =
     has_image_list (data st) @ (if current_question st = None then [] else [current_has_image st])"
  by (auto simp: save_current_question_def Let_def split: option.splits)

lemma save_title_length:
  "length (title_list (data (save_current_question rt cfg st))) =
     length (title_list (data st)) + (if current_question st = None then 0 else 1)"
  by (auto simp: save_current_question_def Let_def split: option.splits)

lemma step_question_start:
  assumes "kind_of rt cfg p = QuestionStart"
  shows "data (step rt cfg st p) = data (save_current_question rt cfg st)"
    and "current_question (step rt cfg st p) \<noteq> None"
    and "collecting_title (step rt cfg st p)"
    and "current_has_image (step rt cfg st p) = has_image p"
    and "current_title_lines (step rt cfg st p) = [py_strip (para_text p)]"
  using assms by (auto simp: kind_of_def step_def Let_def split: if_splits)

lemma step_option_start:
  assumes "kind_of rt cfg p = OptionStart"
  shows "step rt cfg st p =
           st\<lparr>collecting_title := False,
              current_choices := current_choices st @ [py_strip (para_text p)]\<rparr>"
  using assms by (auto simp: kind_of_def step_def Let_def split: if_splits)

lemma step_blank:
  assumes "kind_of rt cfg p = Blank"
  shows "step rt cfg st p = st"
  using assms by (auto simp: kind_of_def step_def Let_def split: if_splits)

lemma step_content:
  assumes "kind_of rt cfg p = Content"
  shows "step rt cfg st p =
           (if collecting_title st then
              st\<lparr>current_title_lines := current_title_lines st @ [py_strip (para_text p)],
                 current_has_image := (current_has_image st \<or> has_image p)\<rparr>
            else st)"
  using assms by (auto simp: kind_of_def step_def Let_def split: if_splits)

lemma step_tag:
  assumes "kind_of rt cfg p \<in> {AnswerTag, DifficultyTag, KnowledgeTag, ExplanationTag}"
  shows "data (step rt cfg st p) = data st"
    and "(current_question (step rt cfg st p) = None) = (current_question st = None)"
    and "collecting_title (step rt cfg st p) = collecting_title st"
    and "current_has_image (step rt cfg st p) = current_has_image st"
    and "current_title_lines (step rt cfg st p) = current_title_lines st"
    and "current_choices (step rt cfg st p) = current_choices st"
  using assms
  by (auto simp: kind_of_def step_def Let_def split: if_splits option.splits)

lemma title_paragraphs_Cons:
  "title_paragraphs rt cfg (p # ps) =
     (if kind_of rt cfg p = OptionStart then []
      else if kind_of rt cfg p = Content then p # title_paragraphs rt cfg ps
      else title_paragraphs rt cfg ps)"
  by (simp add: title_paragraphs_def)

lemma run_has_image:
  "has_image_list (data (save_current_question rt cfg (run_paragraphs rt cfg st ps))) =
     has_image_list (data st)
     @ (if current_question st = None then []
        else [current_has_image st
              \<or> (collecting_title st
                  \<and> list_ex has_image
                       (title_paragraphs rt cfg
                          (takeWhile (\<lambda>q. kind_of rt cfg q \<noteq> QuestionStart) ps)))])
     @ map (block_has_image rt cfg) (blocks rt cfg ps)"
proof (induction ps arbitrary: st)
  case Nil
  then show ?case
    by (simp add: run_paragraphs_def save_data_has_image title_paragraphs_def)
next
  case (Cons p ps)
  have run: "run_paragraphs rt cfg st (p # ps) = run_paragraphs rt cfg (step rt cfg st p) ps"
    by (simp add: run_paragraphs_def)
  show ?case
  proof (cases "kind_of rt cfg p")
    case QuestionStart
    then show ?thesis
      unfolding run Cons.IH
      by (simp add: step_question_start save_data_has_image block_has_image_def
            title_paragraphs_def)
  next
    case OptionStart
    then show ?thesis
      unfolding run Cons.IH
      by (simp add: step_option_start title_paragraphs_Cons)
  next
    case Blank
    then show ?thesis
      unfolding run Cons.IH
      by (simp add: step_blank title_paragraphs_Cons)
  next
    case Content
    then show ?thesis
      unfolding run Cons.IH
      by (auto simp: step_content title_paragraphs_Cons)
  next
    case AnswerTag
    then show ?thesis
      unfolding run Cons.IH
      by (simp add: step_tag title_paragraphs_Cons)
  next
    case DifficultyTag
    then show ?thesis
      unfolding run Cons.IH
      by (simp add: step_tag title_paragraphs_Cons)
  next
    case KnowledgeTag
    then show ?thesis
      unfolding run Cons.IH
      by (simp add: step_tag title_paragraphs_Cons)
  next
    case ExplanationTag
    then show ?thesis
      unfolding run Cons.IH
      by (simp add: step_tag title_paragraphs_Cons)
  qed
qed

lemma run_title_length:
  "length (title_list (data (save_current_question rt cfg (run_paragraphs rt cfg st ps)))) =
     length (title_list (data st)) + (if current_question st = None then 0 else 1)
       + length (blocks rt cfg ps)"
proof (induction ps arbitrary: st)
  case Nil
  then show ?case
    by (simp add: run_paragraphs_def save_title_length)
next
  case (Cons p ps)
  have run: "run_paragraphs rt cfg st (p # ps) = run_paragraphs rt cfg (step rt cfg st p) ps"
    by (simp add: run_paragraphs_def)
  show ?case
    unfolding run Cons.IH
    by (cases "kind_of rt cfg p")
       (simp_all add: step_question_start save_title_length step_option_start step_blank
          step_content step_tag)
qed

lemma step_keeps_title_closed:
  assumes "\<not> collecting_title st" and "kind_of rt cfg p \<noteq> QuestionStart"
  shows "\<not> collecting_title (step rt cfg st p)
         \<and> current_title_lines (step rt cfg st p) = current_title_lines st"
  using assms
  by (cases "kind_of rt cfg p")
     (simp_all add: step_blank step_option_start step_content step_tag)

lemma run_keeps_title_closed:
  assumes "\<not> collecting_title st" and "\<forall>q\<in>set qs. kind_of rt cfg q \<noteq> QuestionStart"
  shows "\<not> collecting_title (run_paragraphs rt cfg st qs)
         \<and> current_title_lines (run_paragraphs rt cfg st qs) = current_title_lines st"
  using assms
proof (induction qs arbitrary: st)
  case Nil
  then show ?case by (simp add: run_paragraphs_def)
next
  case (Cons q qs)
  have "run_paragraphs rt cfg st (q # qs) = run_paragraphs rt cfg (step rt cfg st q) qs"
    by (simp add: run_paragraphs_def)
  with Cons.IH [of "step rt cfg st q"] Cons.prems step_keeps_title_closed [of st rt cfg q]
  show ?case by simp
qed

lemma step_has_image_sticky:
  assumes "current_has_image st" and "kind_of rt cfg p \<noteq> QuestionStart"
  shows "current_has_image (step rt cfg st p)"
  using assms
  by (cases "kind_of rt cfg p")
     (simp_all add: step_blank step_option_start step_content step_tag)

lemma blocks_empty:
  "\<forall>p\<in>set ps. kind_of rt cfg p \<noteq> QuestionStart \<Longrightarrow> blocks rt cfg ps = []"
  by (induction ps) auto

text \<open>
  C2, evaluated on the default configuration. An option line that stands before the first
  question start is kept in \<open>current_choices\<close>, which only a saved question clears: it
  ends up among the options of the first question, which then counts two options.
\<close>

theorem stray_option_joins_first_question:
  "\<exists>d. process_document rt default_config
          (Some [plain (cps ''A.stray''), plain (cps ''1.Q''), plain (cps ''B.x'')]) = Inr d
       \<and> choice_list d = [cps ''A.stray'' @ [10] @ cps ''B.x'']
       \<and> option_count_list d = [2]"
  by (simp add: eval_defs)

lemma run_snoc:
  "run_paragraphs rt cfg st (ps @ [p]) = step rt cfg (run_paragraphs rt cfg st ps) p"
  by (simp add: run_paragraphs_def)

lemma run_Cons:
  "run_paragraphs rt cfg st (p # ps) = run_paragraphs rt cfg (step rt cfg st p) ps"
  by (simp add: run_paragraphs_def)

lemma run_tags_keep_title:
  assumes "\<forall>t\<in>set ts. kind_of rt cfg t \<in> {AnswerTag, DifficultyTag, KnowledgeTag, ExplanationTag}"
  shows "collecting_title (run_paragraphs rt cfg st ts) = collecting_title st
         \<and> current_title_lines (run_paragraphs rt cfg st ts) = current_title_lines st"
  using assms
proof (induction ts arbitrary: st)
  case Nil
  then show ?case by (simp add: run_paragraphs_def)
next
  case (Cons t ts)
  from Cons.prems have t: "kind_of rt cfg t \<in> {AnswerTag, DifficultyTag, KnowledgeTag, ExplanationTag}"
    by simp
  from Cons.IH [of "step rt cfg st t"] Cons.prems step_tag(3,5) [OF t, of st]
  show ?case by (simp add: run_Cons)
qed

text \<open>
  C3, as the code has it. An option line switches title collection off. While it is off,
  no paragraph up to the next question start switches it on again or changes the title
  lines; so after an option line nothing is appended to the title lines of the open
  block. A tag line (answer, difficulty, knowledge or explanation) leaves the flag and the
  title lines as they were. While the flag is on, a content line is appended to the
  title lines and the flag stays on; so a content line that comes after tag lines only
  is still appended, and a question start followed by tag lines and a content line has
  these two as its title lines.
\<close>

theorem title_collection_ends_at_option:
  "(kind_of rt cfg p = OptionStart \<longrightarrow> \<not> collecting_title (step rt cfg st p))
   \<and> (\<not> collecting_title st \<and> (\<forall>q\<in>set qs. kind_of rt cfg q \<noteq> QuestionStart) \<longrightarrow>
        \<not> collecting_title (run_paragraphs rt cfg st qs)
        \<and> current_title_lines (run_paragraphs rt cfg st qs) = current_title_lines st)
   \<and> (kind_of rt cfg p = OptionStart \<and> (\<forall>q\<in>set qs. kind_of rt cfg q \<noteq> QuestionStart) \<longrightarrow>
        current_title_lines (run_paragraphs rt cfg st (p # qs)) = current_title_lines st)
   \<and> (kind_of rt cfg p \<in> {AnswerTag, DifficultyTag, KnowledgeTag, ExplanationTag} \<longrightarrow>
        collecting_title (step rt cfg st p) = collecting_title st
        \<and> current_title_lines (step rt cfg st p) = current_title_lines st)
   \<and> (kind_of rt cfg c = Content \<and> collecting_title st \<longrightarrow>
        collecting_title (step rt cfg st c)
        \<and> current_title_lines (step rt cfg st c)
            = current_title_lines st @ [py_strip (para_text c)])
   \<and> (collecting_title st
        \<and> (\<forall>t\<in>set ts. kind_of rt cfg t \<in> {AnswerTag, DifficultyTag, KnowledgeTag, ExplanationTag})
        \<and> kind_of rt cfg c = Content \<longrightarrow>
        current_title_lines (run_paragraphs rt cfg st (ts @ [c]))
          = current_title_lines st @ [py_strip (para_text c)])
   \<and> (kind_of rt cfg s = QuestionStart
        \<and> (\<forall>t\<in>set ts. kind_of rt cfg t \<in> {AnswerTag, DifficultyTag, KnowledgeTag, ExplanationTag})
        \<and> kind_of rt cfg c = Content \<longrightarrow>
        current_title_lines (run_paragraphs rt cfg st (s # ts @ [c]))
          = [py_strip (para_text s), py_strip (para_text c)])"
proof -
  have a: "\<not> collecting_title (step rt cfg st p)"
    and a': "current_title_lines (step rt cfg st p) = current_title_lines st"
    if "kind_of rt cfg p = OptionStart"
    using that by (simp_all add: step_option_start)
  have c: "current_title_lines (run_paragraphs rt cfg st (p # qs)) = current_title_lines st"
    if "kind_of rt cfg p = OptionStart" and "\<forall>q\<in>set qs. kind_of rt cfg q \<noteq> QuestionStart"
    using run_keeps_title_closed [of "step rt cfg st p" qs rt cfg] a a' that
    by (simp add: run_Cons)
  have d: "collecting_title (step rt cfg st p) = collecting_title st
      \<and> current_title_lines (step rt cfg st p) = current_title_lines st"
    if "kind_of rt cfg p \<in> {AnswerTag, DifficultyTag, KnowledgeTag, ExplanationTag}"
    using step_tag(3,5) [OF that] by simp
  have e: "collecting_title (step rt cfg x c)
      \<and> current_title_lines (step rt cfg x c) = current_title_lines x @ [py_strip (para_text c)]"
    if "kind_of rt cfg c = Content" and "collecting_title x" for x
    using that by (simp add: step_content)
  have f: "current_title_lines (run_paragraphs rt cfg x (ts @ [c]))
      = current_title_lines x @ [py_strip (para_text c)]"
    if "collecting_title x"
      and "\<forall>t\<in>set ts. kind_of rt cfg t \<in> {AnswerTag, DifficultyTag, KnowledgeTag, ExplanationTag}"
      and "kind_of rt cfg c = Content" for x
    using run_tags_keep_title [OF that(2), of x] e [of "run_paragraphs rt cfg x ts"] that(1,3)
    by (simp add: run_snoc)
  have g: "current_title_lines (run_paragraphs rt cfg st (s # ts @ [c]))
      = [py_strip (para_text s), py_strip (para_text c)]"
    if "kind_of rt cfg s = QuestionStart"
      and "\<forall>t\<in>set ts. kind_of rt cfg t \<in> {AnswerTag, DifficultyTag, KnowledgeTag, ExplanationTag}"
      and "kind_of rt cfg c = Content"
    using f [of "step rt cfg st s"] step_question_start(3,5) [OF that(1), of st] that(2,3)
    by (simp add: run_Cons)
  from a c d e [of st] f [of st] g run_keeps_title_closed [of st qs rt cfg] show ?thesis
    by blast
qed

text \<open>
  After the question start \<open>1.Q\<close>, the option line \<open>A.x\<close> closes the title: the answer
  line and the content line that follow leave the title lines at the question start.
  Without the option line, the content line \<open>more\<close> after the answer line is the second
  title line.
\<close>

theorem title_collection_ends_at_option_witness:
  "current_title_lines
     (run_paragraphs latin_rt default_config
        (run_paragraphs latin_rt default_config initial_state [plain (cps ''1.Q'')])
        [plain (cps ''A.x''), plain tag_answer_A, plain (cps ''more'')])
   = [cps ''1.Q'']
   \<and> current_title_lines
       (run_paragraphs latin_rt default_config initial_state
          ([plain (cps ''1.Q''), plain tag_answer_A] @ [plain (cps ''more'')]))
     = [cps ''1.Q'', cps ''more'']
   \<and> current_title_lines
       (run_paragraphs latin_rt default_config
          (run_paragraphs latin_rt default_config initial_state [plain (cps ''1.Q'')])
          ([plain tag_answer_A] @ [plain (cps ''more'')]))
     = [cps ''1.Q'', cps ''more'']"
proof -
  let ?open = "run_paragraphs latin_rt default_config initial_state [plain (cps ''1.Q'')]"
  have kinds: "kind_of latin_rt default_config (plain (cps ''1.Q'')) = QuestionStart"
    "kind_of latin_rt default_config (plain (cps ''A.x'')) = OptionStart"
    "kind_of latin_rt default_config (plain tag_answer_A) = AnswerTag"
    "kind_of latin_rt default_config (plain (cps ''more'')) = Content"
    by (simp_all add: kind_of_def eval_defs latin_defs tag_answer_A_def)
  have opened: "collecting_title ?open" "current_title_lines ?open = [cps ''1.Q'']"
    by (simp_all add: eval_defs latin_defs)
  have strip: "py_strip (para_text (plain (cps ''1.Q''))) = cps ''1.Q''"
    "py_strip (para_text (plain (cps ''more''))) = cps ''more''"
    by (simp_all add: eval_defs)
  from title_collection_ends_at_option [where rt = latin_rt and cfg = default_config
      and p = "plain (cps ''A.x'')" and st = ?open
      and qs = "[plain tag_answer_A, plain (cps ''more'')]"
      and ts = "[plain tag_answer_A]" and c = "plain (cps ''more'')"
      and s = "plain (cps ''1.Q'')"]
    title_collection_ends_at_option [where rt = latin_rt and cfg = default_config
      and st = initial_state and ts = "[plain tag_answer_A]" and c = "plain (cps ''more'')"
      and s = "plain (cps ''1.Q'')"]
  show ?thesis
    using kinds opened strip by simp
qed

text \<open>
  C3 as the specification words it lets a tag line end title collection too. After the
  question start \<open>1.Q\<close> and an answer line the flag is still on, and the content line
  \<open>more\<close> that follows is appended to the title lines.
\<close>

theorem content_after_answer_joins_title:
  "kind_of latin_rt default_config (plain tag_answer_A) = AnswerTag
   \<and> kind_of latin_rt default_config (plain (cps ''more'')) = Content
   \<and> collecting_title
       (run_paragraphs latin_rt default_config initial_state
          [plain (cps ''1.Q''), plain tag_answer_A])
   \<and> current_title_lines
       (run_paragraphs latin_rt default_config initial_state
          [plain (cps ''1.Q''), plain tag_answer_A, plain (cps ''more'')])
     = [cps ''1.Q'', cps ''more'']"
  by (simp add: kind_of_def eval_defs latin_defs tag_answer_A_def)

text \<open>
  C8, as the code has it. \<open>process_document\<close> gives one record for each block of the
  document, and the record's image flag is true exactly when the block's question-start
  paragraph or one of its title paragraphs (the content paragraphs before the block's
  first option line) holds an image; option and tag paragraphs are not looked at. Once
  the flag of the open block is true, it stays true up to the next question start.
\<close>

theorem has_image_of_blocks:
  "(\<exists>d. process_document rt cfg (Some ps) = Inr d
        \<and> length (title_list d) = length (blocks rt cfg ps)
        \<and> has_image_list d = map (block_has_image rt cfg) (blocks rt cfg ps))
   \<and> (current_has_image st \<and> kind_of rt cfg p \<noteq> QuestionStart
        \<longrightarrow> current_has_image (step rt cfg st p))"
  using run_has_image [of rt cfg initial_state ps] run_title_length [of rt cfg initial_state ps]
    step_has_image_sticky [of st rt cfg p]
  by (auto simp: process_document_def initial_state_def empty_data_def)

text \<open>
  Two blocks: the first has a pictured title paragraph and is flagged, the second has a
  pictured option line only and is not; the flag of the first block is still true after
  its option line.
\<close>

theorem has_image_of_blocks_witness:
  "(\<exists>d. process_document latin_rt default_config
          (Some [plain (cps ''1.Q''), pictured (cps ''see the figure''), plain (cps ''A.x''),
                 plain (cps ''2.R''), pictured (cps ''B.y'')]) = Inr d
        \<and> has_image_list d = [True, False])
   \<and> current_has_image
       (step latin_rt default_config
          (run_paragraphs latin_rt default_config initial_state
             [plain (cps ''1.Q''), pictured (cps ''see the figure'')])
          (plain (cps ''A.x'')))"
  using has_image_of_blocks [of latin_rt default_config
      "[plain (cps ''1.Q''), pictured (cps ''see the figure''), plain (cps ''A.x''),
        plain (cps ''2.R''), pictured (cps ''B.y'')]"
      "run_paragraphs latin_rt default_config initial_state
             [plain (cps ''1.Q''), pictured (cps ''see the figure'')]"
      "plain (cps ''A.x'')"]
  by (simp add: kind_of_def block_has_image_def title_paragraphs_def eval_defs latin_defs)

text \<open>
  C8 as the specification words it counts option paragraphs among the contributing
  paragraphs. The option line \<open>A.foo\<close> holds an image and is among the options of the one
  record, yet the record's image flag is false.
\<close>

theorem pictured_option_is_not_flagged:
  "kind_of latin_rt default_config (pictured (cps ''A.foo'')) = OptionStart
   \<and> has_image (pictured (cps ''A.foo''))
   \<and> (\<exists>d. process_document latin_rt default_config
            (Some [plain (cps ''1.Q''), pictured (cps ''A.foo'')]) = Inr d
          \<and> choice_list d = [cps ''A.foo'']
          \<and> has_image_list d = [False])"
  by (simp add: kind_of_def eval_defs latin_defs)

section \<open>The sample document\<close>

text \<open>
  C9. The document with the four paragraphs \<open>1.Question text\<close>, \<open>A.foo\<close>, \<open>B.bar\<close> and the
  answer line for \<open>A\<close> gives exactly one question: two options, the single-choice type and
  the answer \<open>A\<close>. This holds on every runtime for which the opening bracket of the label is
  no decimal digit and the non-ASCII characters of the judge vocabulary have no case.
\<close>

theorem single_question_document:
  assumes "\<not> rt_isdecimal rt 12304"
    and "list_all (caseless rt) [23545, 38169, 8730, 215, 27491, 30830, 35823]"
  shows "process_document rt default_config
           (Some [plain (cps ''1.Question text''), plain (cps ''A.foo''),
                  plain (cps ''B.bar''), plain tag_answer_A])
         = Inr \<lparr>title_list = [cps ''Question text''],
                choice_list = [cps ''A.foo'' @ [10] @ cps ''B.bar''],
                answer_list = [cps ''A''],
                difficulty_list = [[]], knowledge_list = [[]], explain_list = [[]],
                type_list = [single_choice],
                option_count_list = [2],
                has_image_list = [False]\<rparr>"
  using assms by (simp add: eval_defs caseless_def tag_answer_A_def)

theorem single_question_document_witness:
  "process_document latin_rt default_config
           (Some [plain (cps ''1.Question text''), plain (cps ''A.foo''),
                  plain (cps ''B.bar''), plain tag_answer_A])
         = Inr \<lparr>title_list = [cps ''Question text''],
                choice_list = [cps ''A.foo'' @ [10] @ cps ''B.bar''],
                answer_list = [cps ''A''],
                difficulty_list = [[]], knowledge_list = [[]], explain_list = [[]],
                type_list = [single_choice],
                option_count_list = [2],
                has_image_list = [False]\<rparr>"
  by (rule single_question_document) (simp_all add: latin_defs caseless_def)

section \<open>The grouped export\<close>

lemma join_groups_Cons:
  "join_groups s (g # gs) = (if gs = [] then g else g @ [s] @ join_groups s gs)"
  by (cases gs) simp_all

lemma type_groups_Cons:
  "type_groups rows (t # ts) =
     (if filter (has_type t) rows \<noteq> [] then filter (has_type t) rows # type_groups rows ts
      else type_groups rows ts)"
  by (simp add: type_groups_def)

lemma group_loop_join:
  "group_loop cfg rows ts acc =
     (if type_groups rows ts = [] then acc
      else if acc = [] then join_groups (empty_row cfg) (type_groups rows ts)
      else acc @ [empty_row cfg] @ join_groups (empty_row cfg) (type_groups rows ts))"
proof (induction ts arbitrary: acc)
  case Nil
  then show ?case by (simp add: type_groups_def)
next
  case (Cons t ts)
  show ?case
    by (simp add: Cons.IH type_groups_Cons join_groups_Cons Let_def)
qed

lemma join_groups_data:
  assumes "\<forall>g\<in>set gs. s \<notin> set g"
  shows "filter (\<lambda>r. r \<noteq> s) (join_groups s gs) = concat gs"
  using assms
  by (induction s gs rule: join_groups.induct) (auto simp: filter_id_conv)

lemma join_groups_separators:
  assumes "\<forall>g\<in>set gs. s \<notin> set g"
  shows "length (filter (\<lambda>r. r = s) (join_groups s gs)) = length gs - 1"
  using assms
  by (induction s gs rule: join_groups.induct) (auto simp: filter_empty_conv)

lemma zip_tl_append:
  "set (zip (a @ b) (tl (a @ b))) =
     set (zip a (tl a)) \<union> set (zip b (tl b))
       \<union> (if a \<noteq> [] \<and> b \<noteq> [] then {(last a, hd b)} else {})"
proof (induction a)
  case Nil
  then show ?case by simp
next
  case (Cons x a)
  then show ?case
    by (cases a; cases b) auto
qed

lemma join_groups_ends:
  assumes "\<forall>g\<in>set gs. g \<noteq> [] \<and> s \<notin> set g" and "gs \<noteq> []"
  shows "join_groups s gs \<noteq> [] \<and> hd (join_groups s gs) \<noteq> s \<and> last (join_groups s gs) \<noteq> s"
  using assms
proof (induction s gs rule: join_groups.induct)
  case (3 s g h gs)
  then show ?case by (cases g) auto
qed auto

lemma join_groups_no_neighbours:
  assumes "\<forall>g\<in>set gs. g \<noteq> [] \<and> s \<notin> set g"
  shows "(s, s) \<notin> set (zip (join_groups s gs) (tl (join_groups s gs)))"
  using assms
proof (induction s gs rule: join_groups.induct)
  case (1 s)
  then show ?case by simp
next
  case (2 s g)
  then show ?case by (auto dest: set_zip_leftD)
next
  case (3 s g h gs)
  have e: "join_groups s (h # gs) \<noteq> [] \<and> hd (join_groups s (h # gs)) \<noteq> s"
    using join_groups_ends [of "h # gs" s] 3(2) by simp
  have g: "g \<noteq> []" "s \<notin> set g" using 3(2) by auto
  have "(s, s) \<notin> set (zip g (tl g))" using g by (auto dest: set_zip_leftD)
  moreover have "(s, s) \<notin> set (zip (join_groups s (h # gs)) (tl (join_groups s (h # gs))))"
    using 3 by simp
  moreover have "last g \<noteq> s" using g by (metis last_in_set)
  ultimately show ?case
    using e g zip_tl_append [of g "s # join_groups s (h # gs)"]
      zip_tl_append [of "[s]" "join_groups s (h # gs)"]
    by (auto split: if_splits)
qed

lemma map_of_blank_columns:
  "map_of (foldl (\<lambda>r key. AList.update key v r) r0 ks) k =
     (if k \<in> set ks then Some v else map_of r0 k)"
  by (induction ks arbitrary: r0) (auto simp: update_conv')

lemma col_type_not_has_image: "col_type \<noteq> col_has_image"
  by (simp add: col_type_def col_has_image_def cps_def)

lemma empty_row_type:
  "map_of (empty_row cfg) col_type =
     (if col_type \<in> set (output_columns cfg) then Some (StrVal []) else None)"
  by (simp add: empty_row_def update_conv' map_of_blank_columns col_type_not_has_image)

lemma type_order_nonempty: "[] \<notin> set type_order"
  by (simp add: type_order_def single_choice_def multi_choice_def judge_question_def
        fill_blank_def unknown_type_def)

lemma distinct_type_order: "distinct type_order"
  by (simp add: type_order_def single_choice_def multi_choice_def judge_question_def
        fill_blank_def unknown_type_def)

lemma typed_row_not_blank:
  assumes "has_type t q" and "t \<in> set type_order"
  shows "q \<noteq> empty_row cfg"
  using assms type_order_nonempty
  by (auto simp: has_type_def empty_row_type split: if_splits)

lemma type_groups_typed:
  "\<forall>g\<in>set (type_groups rows type_order). g \<noteq> [] \<and> empty_row cfg \<notin> set g"
  by (auto simp: type_groups_def dest: typed_row_not_blank)

lemma concat_type_groups:
  "concat (type_groups rows ts) = concat (map (\<lambda>t. filter (has_type t) rows) ts)"
  by (induction ts) (auto simp: type_groups_def)

lemma mset_filter_disjoint:
  "\<forall>x\<in>set xs. \<not> (P x \<and> Q x) \<Longrightarrow>
     mset (filter P xs) + mset (filter Q xs) = mset (filter (\<lambda>x. P x \<or> Q x) xs)"
  by (induction xs) auto

lemma mset_concat_types:
  assumes "distinct ts"
  shows "mset (concat (map (\<lambda>t. filter (has_type t) rows) ts))
           = mset (filter (\<lambda>q. \<exists>t\<in>set ts. has_type t q) rows)"
  using assms
proof (induction ts)
  case Nil
  then show ?case by simp
next
  case (Cons t ts)
  have "\<forall>q\<in>set rows. \<not> (has_type t q \<and> (\<exists>t'\<in>set ts. has_type t' q))"
    using Cons.prems by (auto simp: has_type_def)
  from mset_filter_disjoint [OF this] Cons show ?case
    by simp
qed

lemma determine_type_in_order: "determine_type rt cfg a \<in> set type_order"
  by (simp add: determine_type_def type_order_def Let_def split: option.splits)

lemma save_typed:
  "typed_data (data st) \<Longrightarrow> typed_data (data (save_current_question rt cfg st))"
  using determine_type_in_order
  by (auto simp: save_current_question_def typed_data_def Let_def split: option.splits)

lemma step_typed:
  assumes "typed_data (data st)"
  shows "typed_data (data (step rt cfg st p))"
  using assms
  by (cases "kind_of rt cfg p")
     (simp_all add: step_blank step_option_start step_content step_tag step_question_start
        save_typed)

lemma run_typed:
  "typed_data (data st) \<Longrightarrow> typed_data (data (run_paragraphs rt cfg st ps))"
proof (induction ps arbitrary: st)
  case Nil
  then show ?case by (simp add: run_paragraphs_def)
next
  case (Cons p ps)
  from Cons.IH [OF step_typed [OF Cons.prems]] show ?case
    by (simp add: run_paragraphs_def)
qed

lemma process_document_typed:
  assumes "process_document rt cfg doc = Inr d"
  shows "typed_data d"
proof -
  have "typed_data (data initial_state)"
    by (simp add: typed_data_def initial_state_def empty_data_def)
  from save_typed [OF run_typed [OF this]] assms show ?thesis
    by (auto simp: process_document_def split: option.splits)
qed

lemma prepared_rows_typed:
  assumes "typed_data d"
  shows "\<forall>q\<in>set (prepare_excel_data d). \<exists>t\<in>set type_order. has_type t q"
proof
  fix q assume "q \<in> set (prepare_excel_data d)"
  then obtain i where i: "i < length (title_list d)" and q: "q = question_data d i"
    by (auto simp: prepare_excel_data_def)
  with assms have "type_list d ! i \<in> set type_order"
    by (auto simp: typed_data_def)
  moreover have "has_type (type_list d ! i) q"
    using assms i by (simp add: q has_type_def question_data_def nth_or_def typed_data_def)
  ultimately show "\<exists>t\<in>set type_order. has_type t q" ..
qed

lemma select_columns_empty:
  "columns \<noteq> [] \<Longrightarrow> select_columns columns [] = Inl KeyError"
  by (cases columns) (simp_all add: select_columns_def frame_columns_def)

lemma group_rows_empty: "group_rows cfg [] = []"
  by (simp add: group_rows_def group_loop_join type_groups_def)

lemma export_empty:
  assumes "output_columns cfg \<noteq> []" and "title_list d = []"
  shows "export_to_excel cfg d = Inl KeyError"
  using assms
  by (simp add: export_to_excel_def prepare_excel_data_def group_rows_empty select_columns_empty)

lemma grouped_rows_complete:
  assumes "\<forall>q\<in>set rows. \<exists>t\<in>set type_order. has_type t q"
  shows "mset (concat (map (\<lambda>t. filter (has_type t) rows) type_order)) = mset rows"
proof -
  from assms have "filter (\<lambda>q. \<exists>t\<in>set type_order. has_type t q) rows = rows"
    by (simp add: filter_id_conv)
  then show ?thesis
    by (simp add: mset_concat_types distinct_type_order)
qed

text \<open>
  C6. The grouped rows are the non-empty groups of the rows by type, in the order of
  \<open>type_order\<close> and each in the order of the input, joined with one blank row between
  neighbouring groups. So the rows that are not blank are the groups one after the other;
  there is one blank row less than there are non-empty groups; the first and the last
  row are not blank, and no two blank rows are neighbours. When every row has one of the
  five types, as every record of \<open>process_document\<close> has, the grouped rows without the
  blank ones are the input rows, each once.
\<close>

theorem grouped_export:
  "group_rows cfg rows = join_groups (empty_row cfg) (type_groups rows type_order)
   \<and> filter (\<lambda>r. r \<noteq> empty_row cfg) (group_rows cfg rows)
       = concat (map (\<lambda>t. filter (has_type t) rows) type_order)
   \<and> length (filter (\<lambda>r. r = empty_row cfg) (group_rows cfg rows))
       = length (type_groups rows type_order) - 1
   \<and> (group_rows cfg rows \<noteq> [] \<longrightarrow>
        hd (group_rows cfg rows) \<noteq> empty_row cfg \<and> last (group_rows cfg rows) \<noteq> empty_row cfg)
   \<and> (empty_row cfg, empty_row cfg) \<notin> set (zip (group_rows cfg rows) (tl (group_rows cfg rows)))
   \<and> ((\<forall>q\<in>set rows. \<exists>t\<in>set type_order. has_type t q) \<longrightarrow>
        mset (filter (\<lambda>r. r \<noteq> empty_row cfg) (group_rows cfg rows)) = mset rows)
   \<and> (process_document rt cfg doc = Inr d \<longrightarrow>
        mset (filter (\<lambda>r. r \<noteq> empty_row cfg) (group_rows cfg (prepare_excel_data d)))
          = mset (prepare_excel_data d))"
proof -
  let ?s = "empty_row cfg"
  have typed: "\<forall>g\<in>set (type_groups xs type_order). g \<noteq> [] \<and> ?s \<notin> set g" for xs
    by (rule type_groups_typed)
  have join: "group_rows cfg xs = join_groups ?s (type_groups xs type_order)" for xs
    by (simp add: group_rows_def group_loop_join)
  have rows: "filter (\<lambda>r. r \<noteq> ?s) (group_rows cfg xs)
      = concat (map (\<lambda>t. filter (has_type t) xs) type_order)" for xs
    using typed [of xs] by (simp add: join join_groups_data concat_type_groups)
  have seps: "length (filter (\<lambda>r. r = ?s) (group_rows cfg rows))
      = length (type_groups rows type_order) - 1"
    using typed [of rows] by (simp add: join join_groups_separators)
  have ends: "hd (group_rows cfg rows) \<noteq> ?s \<and> last (group_rows cfg rows) \<noteq> ?s"
    if "group_rows cfg rows \<noteq> []"
  proof -
    from that have "type_groups rows type_order \<noteq> []" by (auto simp: join)
    with typed [of rows] show ?thesis by (simp add: join join_groups_ends)
  qed
  have apart: "(?s, ?s) \<notin> set (zip (group_rows cfg rows) (tl (group_rows cfg rows)))"
    using typed [of rows] by (simp add: join join_groups_no_neighbours)
  have all: "mset (filter (\<lambda>r. r \<noteq> ?s) (group_rows cfg xs)) = mset xs"
    if "\<forall>q\<in>set xs. \<exists>t\<in>set type_order. has_type t q" for xs
    using that by (simp add: rows grouped_rows_complete)
  have pipeline: "mset (filter (\<lambda>r. r \<noteq> ?s) (group_rows cfg (prepare_excel_data d)))
      = mset (prepare_excel_data d)"
    if "process_document rt cfg doc = Inr d"
    using that by (intro all prepared_rows_typed process_document_typed)
  from join [of rows] rows [of rows] seps ends apart all [of rows] pipeline
  show ?thesis by blast
qed

text \<open>
  Three rows, fill in the blank, single choice, fill in the blank: the single-choice row
  comes first, then one blank row, then the two other rows in their order.
\<close>

theorem grouped_export_witness:
  "group_rows default_config
       [typed_row fill_blank (cps ''q1''), typed_row single_choice (cps ''q2''),
        typed_row fill_blank (cps ''q3'')]
     = [typed_row single_choice (cps ''q2''), empty_row default_config,
        typed_row fill_blank (cps ''q1''), typed_row fill_blank (cps ''q3'')]
   \<and> mset (filter (\<lambda>r. r \<noteq> empty_row default_config)
        (group_rows default_config
          [typed_row fill_blank (cps ''q1''), typed_row single_choice (cps ''q2''),
           typed_row fill_blank (cps ''q3'')]))
     = mset [typed_row fill_blank (cps ''q1''), typed_row single_choice (cps ''q2''),
             typed_row fill_blank (cps ''q3'')]"
proof -
  let ?rows = "[typed_row fill_blank (cps ''q1''), typed_row single_choice (cps ''q2''),
                typed_row fill_blank (cps ''q3'')]"
  have typed: "\<forall>q\<in>set ?rows. \<exists>t\<in>set type_order. has_type t q"
    by (simp add: typed_row_def has_type_def type_order_def)
  have groups: "type_groups ?rows type_order
      = [[typed_row single_choice (cps ''q2'')],
         [typed_row fill_blank (cps ''q1''), typed_row fill_blank (cps ''q3'')]]"
    by (simp add: typed_row_def has_type_def type_groups_def type_order_def single_choice_def
          multi_choice_def judge_question_def fill_blank_def unknown_type_def)
  from grouped_export [of default_config ?rows] typed
  have "group_rows default_config ?rows
          = join_groups (empty_row default_config) (type_groups ?rows type_order)"
    and "mset (filter (\<lambda>r. r \<noteq> empty_row default_config) (group_rows default_config ?rows))
          = mset ?rows"
    by blast+
  then show ?thesis
    by (simp add: groups)
qed

text \<open>
  C10. With a non-empty list of output columns, as the default has, the export of data
  without a question raises \<open>KeyError\<close>: nothing is grouped, the frame of no rows has no
  columns, and selecting the output columns fails. So \<open>process_file\<close> raises on a readable
  document without a question-start paragraph, where \<open>process_document\<close> gives no record.
\<close>

theorem export_without_questions:
  "(output_columns cfg \<noteq> [] \<and> title_list d = [] \<longrightarrow> export_to_excel cfg d = Inl KeyError)
   \<and> (output_columns cfg \<noteq> [] \<and> (\<forall>p\<in>set ps. kind_of rt cfg p \<noteq> QuestionStart) \<longrightarrow>
        (\<exists>d'. process_document rt cfg (Some ps) = Inr d' \<and> title_list d' = [])
        \<and> process_file rt cfg (Some ps) = Inl KeyError)"
proof -
  have "title_list (data (save_current_question rt cfg
            (run_paragraphs rt cfg initial_state ps))) = []"
    if "\<forall>p\<in>set ps. kind_of rt cfg p \<noteq> QuestionStart"
    using run_title_length [of rt cfg initial_state ps] blocks_empty [OF that]
    by (simp add: initial_state_def empty_data_def)
  then show ?thesis
    by (auto simp: export_empty process_file_def process_document_def)
qed

text \<open>
  A document with a heading and a stray option line, and the export of the empty data.
\<close>

theorem export_without_questions_witness:
  "process_file latin_rt default_config (Some [plain (cps ''Homework''), plain (cps ''A.x'')])
     = Inl KeyError
   \<and> export_to_excel default_config empty_data = Inl KeyError"
  using export_without_questions [of default_config empty_data
      "[plain (cps ''Homework''), plain (cps ''A.x'')]" latin_rt]
  by (simp add: kind_of_def eval_defs col_type_def)

end
